theory Spec2Isabelle
  imports Main "HOL-Library.Sublist" "HOL-Library.AList"
begin

section \<open>yfusion: a client for the Yelp Fusion API\<close>

text \<open>
  A shallow embedding of the Go package \<^verbatim>\<open>yfusion\<close>: the parameter builder of
  \<^verbatim>\<open>BusinessSearchParams\<close> (src/unnamed/part_000) and the request and decoding
  functions of \<^verbatim>\<open>YelpFusion\<close> (src/yelp.go, src/reviews.go).

  Go strings are byte strings; they are modelled as \<^typ>\<open>string\<close>, one \<^typ>\<open>char\<close> per byte.
  A Go function returning \<^verbatim>\<open>(string, error)\<close> returns a pair here, the error being
  \<^term>\<open>None\<close> for \<^verbatim>\<open>nil\<close>; a function returning a pointer and an error returns a sum,
  \<^term>\<open>Inl\<close> carrying the error, since every caller drops the pointer when the error is set.
\<close>

subsection \<open>Errors\<close>

text \<open>
  \<^verbatim>\<open>errors.New(msg)\<close> is \<open>errorString msg\<close>. The other constructors stand for the errors
  of the standard library: \<^verbatim>\<open>http.NewRequest\<close>, \<^verbatim>\<open>http.Client.Do\<close> and
  \<^verbatim>\<open>json.Decoder.Decode\<close>.
\<close>

datatype error =
    errorString string
  | requestError string
  | transportError string
  | jsonError string

subsection \<open>The verbs of \<^verbatim>\<open>fmt.Sprintf\<close> the package uses\<close>

text \<open>\<^verbatim>\<open>%d\<close> on an \<^verbatim>\<open>int\<close>: the decimal digits, a minus sign in front of a negative number.\<close>

function fmt_nat :: "nat \<Rightarrow> string" where
  "fmt_nat n = (if n < 10 then [''0123456789'' ! n]
                else fmt_nat (n div 10) @ [''0123456789'' ! (n mod 10)])"
  by pat_completeness auto
termination
  by (relation "measure id") auto

declare fmt_nat.simps [simp del]

definition fmt_d :: "int \<Rightarrow> string" where
  "fmt_d i = (if i < 0 then ''-'' @ fmt_nat (nat (- i)) else fmt_nat (nat i))"

text \<open>\<^verbatim>\<open>%v\<close> on a \<^verbatim>\<open>bool\<close>.\<close>

definition fmt_v_bool :: "bool \<Rightarrow> string" where
  "fmt_v_bool b = (if b then ''true'' else ''false'')"

text \<open>
  A \<^verbatim>\<open>float64\<close> is a NaN, an infinity, or a signed dyadic number: \<open>Finite s m e\<close> is
  \<open>(-1)\<^sup>s * m * 2\<^sup>e\<close> (negative zero is \<open>Finite True 0 e\<close>).

  \<^verbatim>\<open>%f\<close> prints a finite number with six digits after the point, the exact value rounded
  to the nearest multiple of \<open>10\<^sup>-\<^sup>6\<close>, a tie to the even one
  (\<^verbatim>\<open>strconv.AppendFloat(_, v, 'f', 6, 64)\<close>); the sign of a negative number, of negative
  zero too, is printed. The infinities print as \<^verbatim>\<open>+Inf\<close> and \<^verbatim>\<open>-Inf\<close>, a NaN as
  \<^verbatim>\<open>NaN\<close>.
\<close>

datatype float64 = Finite bool nat int | Infinity bool | NaN

definition round_half_even :: "nat \<Rightarrow> nat \<Rightarrow> nat" where
  \<comment> \<open>\<open>num / den\<close> rounded to the nearest natural number, a tie to the even one\<close>
  "round_half_even num den =
     (let q = num div den; r = num mod den
      in if den < 2 * r \<or> (2 * r = den \<and> odd q) then q + 1 else q)"

definition micro_units :: "nat \<Rightarrow> int \<Rightarrow> nat" where
  \<comment> \<open>\<open>m * 2\<^sup>e * 10\<^sup>6\<close>, rounded\<close>
  "micro_units m e =
     (if 0 \<le> e then m * 2 ^ nat e * 1000000
      else round_half_even (m * 1000000) (2 ^ nat (- e)))"

definition pad6 :: "string \<Rightarrow> string" where
  \<comment> \<open>zeros in front, up to six digits\<close>
  "pad6 s = drop (length s) ''000000'' @ s"

fun fmt_f :: "float64 \<Rightarrow> string" where
  "fmt_f NaN = ''NaN''"
| "fmt_f (Infinity neg) = (if neg then ''-Inf'' else ''+Inf'')"
| "fmt_f (Finite neg m e) =
     (let u = micro_units m e
      in (if neg then ''-'' else '''') @ fmt_nat (u div 1000000) @ ''.'' @ pad6 (fmt_nat (u mod 1000000)))"

subsection \<open>\<^verbatim>\<open>url.QueryEscape\<close>\<close>

text \<open>
  \<^verbatim>\<open>net/url\<close>, mode \<^verbatim>\<open>encodeQueryComponent\<close>: letters, digits and \<^verbatim>\<open>-_.~\<close> stay, a space
  becomes \<^verbatim>\<open>+\<close>, every other byte becomes \<^verbatim>\<open>%XX\<close> with upper-case hexadecimal digits.
\<close>

definition shouldEscape :: "char \<Rightarrow> bool" where
  "shouldEscape c =
     (let n = (of_char c :: nat)
      in \<not> ((97 \<le> n \<and> n \<le> 122) \<or> (65 \<le> n \<and> n \<le> 90) \<or> (48 \<le> n \<and> n \<le> 57)
            \<or> c = CHR ''-'' \<or> c = CHR ''_'' \<or> c = CHR ''.'' \<or> c = CHR ''~''))"

definition upperhex :: string where
  "upperhex = ''0123456789ABCDEF''"

definition escapeByte :: "char \<Rightarrow> string" where
  "escapeByte c =
     (if c = CHR '' '' then ''+''
      else if shouldEscape c
        then [CHR ''%'', upperhex ! (of_char c div 16), upperhex ! (of_char c mod 16)]
      else [c])"

definition QueryEscape :: "string \<Rightarrow> string" where
  "QueryEscape s = concat (map escapeByte s)"

subsection \<open>The parameter builder (src/unnamed/part_000)\<close>

text \<open>
  Every field of \<^verbatim>\<open>BusinessSearchParams\<close> is a pointer: \<^term>\<open>None\<close> is \<^verbatim>\<open>nil\<close>.
  The functions below take the structure itself: their Go argument is a pointer that is
  not \<^verbatim>\<open>nil\<close>.
\<close>

record BusinessSearchParams =
  Term :: "string option"
  Location :: "string option"
  Latitude :: "float64 option"
  Longitude :: "float64 option"
  Radius :: "int option"
  Categories :: "string option"
  Locale :: "string option"
  Limit :: "int option"
  Offset :: "int option"
  SortBy :: "string option"
  Price :: "string option"
  OpenNow :: "bool option"
  OpenAt :: "int option"
  Attributes :: "string option"

text \<open>The record a caller starts from: \<^verbatim>\<open>&BusinessSearchParams{}\<close>.\<close>

definition emptyParams :: BusinessSearchParams where
  "emptyParams = \<lparr>Term = None, Location = None, Latitude = None, Longitude = None,
     Radius = None, Categories = None, Locale = None, Limit = None, Offset = None,
     SortBy = None, Price = None, OpenNow = None, OpenAt = None, Attributes = None\<rparr>"

definition errMissingLocation :: error where
  "errMissingLocation =
     errorString ''error missing required fields: Location or (Latitude and Longitude)''"

definition errOpenBoth :: error where
  "errOpenBoth = errorString ''cannot set both open_at and open_now parameters''"

definition getLocOrLatLong :: "BusinessSearchParams \<Rightarrow> string \<times> error option" where
  "getLocOrLatLong bus =
     (if Location bus = None \<and> Latitude bus = None \<and> Longitude bus = None
      then ('''', Some errMissingLocation)
      else
        let sb = '''';
            sb = (case Location bus of
                    Some l \<Rightarrow> sb @ ''location='' @ QueryEscape l
                  | None \<Rightarrow> sb);
            sb = (case (Latitude bus, Longitude bus) of
                    (Some la, Some lo) \<Rightarrow>
                      (if 0 < length sb then sb @ ''&'' else sb)
                        @ ''latitude='' @ fmt_f la @ ''&longitude='' @ fmt_f lo
                  | _ \<Rightarrow> sb)
        in (sb, None))"

definition getOpenAtOrNow :: "BusinessSearchParams \<Rightarrow> string \<times> error option" where
  "getOpenAtOrNow bus =
     (if OpenAt bus \<noteq> None \<and> OpenNow bus \<noteq> None then ('''', Some errOpenBoth)
      else case OpenNow bus of
             Some b \<Rightarrow> (''open_now='' @ fmt_v_bool b, None)
           | None \<Rightarrow>
               (case OpenAt bus of
                  Some i \<Rightarrow> (''open_at='' @ fmt_d i, None)
                | None \<Rightarrow> ('''', None)))"

text \<open>One optional clause of \<^verbatim>\<open>Params\<close>: \<^verbatim>\<open>if p != nil { sb.WriteString("&"); sb.WriteString(key=value) }\<close>.\<close>

definition writeField :: "string \<Rightarrow> ('a \<Rightarrow> string) \<Rightarrow> 'a option \<Rightarrow> string \<Rightarrow> string" where
  "writeField key render p sb =
     (case p of Some v \<Rightarrow> sb @ ''&'' @ key @ ''='' @ render v | None \<Rightarrow> sb)"

definition Params :: "BusinessSearchParams \<Rightarrow> string \<times> error option" where
  "Params bs =
     (let (locString, err) = getLocOrLatLong bs
      in if err \<noteq> None then ('''', err)
         else
           let sb = locString;
               sb = writeField ''term'' QueryEscape (Term bs) sb;
               sb = writeField ''radius'' fmt_d (Radius bs) sb;
               sb = writeField ''categories'' QueryEscape (Categories bs) sb;
               sb = writeField ''locale'' QueryEscape (Locale bs) sb;
               sb = writeField ''limit'' fmt_d (Limit bs) sb;
               sb = writeField ''offset'' fmt_d (Offset bs) sb;
               sb = writeField ''sort_by'' QueryEscape (SortBy bs) sb;
               sb = writeField ''price'' QueryEscape (Price bs) sb;
               (open, err) = getOpenAtOrNow bs
           in if err \<noteq> None then ('''', err)
              else
                let sb = (if open \<noteq> '''' then sb @ ''&'' @ open else sb);
                    sb = writeField ''attributes'' QueryEscape (Attributes bs) sb
                in (sb, None))"

text \<open>The setters allocate the field and store the value.\<close>

definition SetTerm :: "string \<Rightarrow> BusinessSearchParams \<Rightarrow> BusinessSearchParams" where
  "SetTerm s bs = bs\<lparr>Term := Some s\<rparr>"

definition SetLocation :: "string \<Rightarrow> BusinessSearchParams \<Rightarrow> BusinessSearchParams" where
  "SetLocation s bs = bs\<lparr>Location := Some s\<rparr>"

definition SetLatitude :: "float64 \<Rightarrow> BusinessSearchParams \<Rightarrow> BusinessSearchParams" where
  "SetLatitude i bs = bs\<lparr>Latitude := Some i\<rparr>"

definition SetLongitude :: "float64 \<Rightarrow> BusinessSearchParams \<Rightarrow> BusinessSearchParams" where
  "SetLongitude i bs = bs\<lparr>Longitude := Some i\<rparr>"

definition SetOpenNow :: "bool \<Rightarrow> BusinessSearchParams \<Rightarrow> BusinessSearchParams" where
  "SetOpenNow b bs = bs\<lparr>OpenNow := Some b\<rparr>"

definition SetOpenAt :: "int \<Rightarrow> BusinessSearchParams \<Rightarrow> BusinessSearchParams" where
  "SetOpenAt i bs = bs\<lparr>OpenAt := Some i\<rparr>"

subsection \<open>\<^verbatim>\<open>strings.TrimSpace\<close>\<close>

text \<open>
  \<^verbatim>\<open>TrimSpace\<close> removes the leading and the trailing white space of a string, as Unicode
  defines it (\<^verbatim>\<open>unicode.IsSpace\<close>). On the bytes of the string, a white-space rune is one
  of these UTF-8 sequences: the six ASCII spaces, U+0085, U+00A0, U+1680, U+2000 to U+200A,
  U+2028, U+2029, U+202F, U+205F and U+3000.
\<close>

definition spaceRunes :: "string list" where
  "spaceRunes =
     [[CHR 0x09], [CHR 0x0A], [CHR 0x0B], [CHR 0x0C], [CHR 0x0D], [CHR 0x20],
      [CHR 0xC2, CHR 0x85], [CHR 0xC2, CHR 0xA0],
      [CHR 0xE1, CHR 0x9A, CHR 0x80],
      [CHR 0xE2, CHR 0x80, CHR 0x80], [CHR 0xE2, CHR 0x80, CHR 0x81],
      [CHR 0xE2, CHR 0x80, CHR 0x82], [CHR 0xE2, CHR 0x80, CHR 0x83],
      [CHR 0xE2, CHR 0x80, CHR 0x84], [CHR 0xE2, CHR 0x80, CHR 0x85],
      [CHR 0xE2, CHR 0x80, CHR 0x86], [CHR 0xE2, CHR 0x80, CHR 0x87],
      [CHR 0xE2, CHR 0x80, CHR 0x88], [CHR 0xE2, CHR 0x80, CHR 0x89],
      [CHR 0xE2, CHR 0x80, CHR 0x8A],
      [CHR 0xE2, CHR 0x80, CHR 0xA8], [CHR 0xE2, CHR 0x80, CHR 0xA9],
      [CHR 0xE2, CHR 0x80, CHR 0xAF], [CHR 0xE2, CHR 0x81, CHR 0x9F],
      [CHR 0xE3, CHR 0x80, CHR 0x80]]"

definition leadingSpace :: "string \<Rightarrow> nat" where
  \<comment> \<open>the width in bytes of the white-space rune the string starts with, 0 when there is none\<close>
  "leadingSpace s =
     (case find (\<lambda>r. prefix r s) spaceRunes of Some r \<Rightarrow> length r | None \<Rightarrow> 0)"

definition trailingSpace :: "string \<Rightarrow> nat" where
  \<comment> \<open>the same for the rune the string ends with\<close>
  "trailingSpace s =
     (case find (\<lambda>r. suffix r s) spaceRunes of Some r \<Rightarrow> length r | None \<Rightarrow> 0)"

function TrimLeftSpace :: "string \<Rightarrow> string" where
  "TrimLeftSpace s =
     (if leadingSpace s = 0 then s else TrimLeftSpace (drop (leadingSpace s) s))"
  by pat_completeness auto
termination
proof (relation "measure length")
  show "wf (measure length)" by simp
next
  fix s :: string
  assume nz: "leadingSpace s \<noteq> 0"
  then obtain r where "find (\<lambda>r. prefix r s) spaceRunes = Some r"
    by (auto simp: leadingSpace_def split: option.splits)
  then have "r \<in> set spaceRunes" and "prefix r s"
    by (auto simp: find_Some_iff)
  then have "s \<noteq> []"
    by (auto simp: spaceRunes_def)
  with nz show "(drop (leadingSpace s) s, s) \<in> measure length"
    by simp
qed

function TrimRightSpace :: "string \<Rightarrow> string" where
  "TrimRightSpace s =
     (if trailingSpace s = 0 then s
      else TrimRightSpace (take (length s - trailingSpace s) s))"
  by pat_completeness auto
termination
proof (relation "measure length")
  show "wf (measure length)" by simp
next
  fix s :: string
  assume nz: "trailingSpace s \<noteq> 0"
  then obtain r where "find (\<lambda>r. suffix r s) spaceRunes = Some r"
    by (auto simp: trailingSpace_def split: option.splits)
  then have "r \<in> set spaceRunes" and "suffix r s"
    by (auto simp: find_Some_iff)
  then have "s \<noteq> []"
    by (auto simp: spaceRunes_def)
  with nz show "(take (length s - trailingSpace s) s, s) \<in> measure length"
    by simp
qed

declare TrimLeftSpace.simps [simp del] TrimRightSpace.simps [simp del]

definition TrimSpace :: "string \<Rightarrow> string" where
  "TrimSpace s = TrimRightSpace (TrimLeftSpace s)"

subsection \<open>Requests, responses and the client (src/yelp.go, lines 108 to 339)\<close>

text \<open>
  A \<^verbatim>\<open>context.Context\<close> value is known by its identity only. The \<open>ctx\<close> of a request is
  \<^term>\<open>None\<close> when the request has the background context, which is never cancelled.
  A header holds the list of values of each key.
\<close>

datatype Context = Context nat

record Request =
  Method :: string
  URL :: string
  Header :: "(string \<times> string list) list"
  ctx :: "Context option"

text \<open>
  The body of a response, as the scanner of \<^verbatim>\<open>encoding/json\<close> reads its first value:
  \<^term>\<open>None\<close> when the bytes are not JSON. A number is \<open>JNumber (Some i)\<close> when its literal
  is an integer that fits a Go \<^verbatim>\<open>int\<close>, and \<open>JNumber None\<close> otherwise. The members of an
  object are in the order of the text, duplicates included.
\<close>

datatype json =
    JNull
  | JBool bool
  | JNumber "int option"
  | JString string
  | JArray "json list"
  | JObject "(string \<times> json) list"

record Response =
  StatusCode :: int
  Status :: string
  Body :: "json option"

text \<open>
  \<^verbatim>\<open>yf.client.Do(req)\<close> is the transport. It acts on the world outside of the program,
  whose state \<open>'w\<close> it takes and returns: a function of this package that returns the world it
  was given has made no network call.
\<close>

record 'w YelpFusion =
  client :: "Request \<Rightarrow> 'w \<Rightarrow> (error + Response) \<times> 'w"
  apiKey :: string

definition baseURL :: string where
  "baseURL = ''https://api.yelp.com/v3''"

definition busDetails :: string where
  "busDetails = ''/businesses''"

definition busSearch :: string where
  "busSearch = busDetails @ ''/search''"

definition phoneSearch :: string where
  "phoneSearch = busSearch @ ''/phone''"

definition reviewSearch :: string where
  "reviewSearch = ''/reviews''"

text \<open>
  \<^verbatim>\<open>http.NewRequest(method, url, nil)\<close> refuses a method that is not a token and a URL that
  \<^verbatim>\<open>url.Parse\<close> refuses. The parser is a parameter of the model, \<open>parse\<close>, which gives
  the error of a URL it refuses. The new request has no header and the background context.
\<close>

definition isTokenByte :: "char \<Rightarrow> bool" where
  "isTokenByte c =
     (let n = (of_char c :: nat)
      in (97 \<le> n \<and> n \<le> 122) \<or> (65 \<le> n \<and> n \<le> 90) \<or> (48 \<le> n \<and> n \<le> 57)
         \<or> c \<in> set ''!#$%&*+-.^_`|~'' \<or> n = 39)"

definition validMethod :: "string \<Rightarrow> bool" where
  "validMethod m = (m \<noteq> [] \<and> list_all isTokenByte m)"

definition NewRequest :: "(string \<Rightarrow> error option) \<Rightarrow> string \<Rightarrow> string \<Rightarrow> error + Request" where
  "NewRequest parse method url =
     (let method = (if method = '''' then ''GET'' else method)
      in if \<not> validMethod method then Inl (requestError (''net/http: invalid method '' @ method))
         else (case parse url of
                 Some err \<Rightarrow> Inl err
               | None \<Rightarrow> Inr \<lparr>Method = method, URL = url, Header = [], ctx = None\<rparr>))"

text \<open>\<^verbatim>\<open>req.WithContext(ctx)\<close> returns a copy of the request with the context; \<open>req\<close> stays as it is.\<close>

definition WithContext :: "Context \<Rightarrow> Request \<Rightarrow> Request" where
  "WithContext c req = req\<lparr>ctx := Some c\<rparr>"

text \<open>\<^verbatim>\<open>req.Header.Set(key, value)\<close>: the value replaces the values the key had.\<close>

definition Header_Set :: "string \<Rightarrow> string \<Rightarrow> Request \<Rightarrow> Request" where
  "Header_Set k v req = req\<lparr>Header := AList.update k [v] (Header req)\<rparr>"

text \<open>
  \<^verbatim>\<open>getRequest\<close> (lines 153 to 163) calls \<^verbatim>\<open>req.WithContext(ctx)\<close> as a statement: the
  copy it returns, \<open>copied\<close> below, is not used, and the function returns \<open>req\<close>.
\<close>

definition getRequest ::
    "(string \<Rightarrow> error option) \<Rightarrow> 'w YelpFusion \<Rightarrow> Context option \<Rightarrow> string \<Rightarrow> string \<Rightarrow> error + Request" where
  "getRequest parse yf c method url =
     (case NewRequest parse method url of
        Inl err \<Rightarrow> Inl err
      | Inr req \<Rightarrow>
          let req = Header_Set ''Authorization'' (''Bearer '' @ apiKey yf) req;
              copied = (case c of Some c' \<Rightarrow> Some (WithContext c' req) | None \<Rightarrow> None)
          in Inr req)"

text \<open>The functions that return the response of the transport as it is.\<close>

definition SearchBusinessResponse ::
    "(string \<Rightarrow> error option) \<Rightarrow> 'w YelpFusion \<Rightarrow> Context option \<Rightarrow> BusinessSearchParams \<Rightarrow> 'w
      \<Rightarrow> (error + Response) \<times> 'w" where
  "SearchBusinessResponse parse yf c bus w =
     (let (params, err) = Params bus
      in case err of
           Some e \<Rightarrow> (Inl e, w)
         | None \<Rightarrow>
             (let urlStr = baseURL @ busSearch @ ''?'' @ params
              in case getRequest parse yf c ''GET'' urlStr of
                   Inl e \<Rightarrow> (Inl e, w)
                 | Inr req \<Rightarrow> client yf req w))"

definition SearchBusinessDetailsWithLocaleResponse ::
    "(string \<Rightarrow> error option) \<Rightarrow> 'w YelpFusion \<Rightarrow> Context option \<Rightarrow> string \<Rightarrow> string \<Rightarrow> 'w
      \<Rightarrow> (error + Response) \<times> 'w" where
  "SearchBusinessDetailsWithLocaleResponse parse yf c busID locale w =
     (let urlStr = baseURL @ busDetails @ ''/'' @ busID;
          urlStr = (if TrimSpace locale \<noteq> '''' then urlStr @ ''?locale='' @ QueryEscape locale
                    else urlStr)
      in case getRequest parse yf c ''GET'' urlStr of
           Inl e \<Rightarrow> (Inl e, w)
         | Inr req \<Rightarrow> client yf req w)"

definition errPhoneRequired :: error where
  "errPhoneRequired = errorString ''phone number is required''"

definition SearchBusinessesByPhoneResponse ::
    "(string \<Rightarrow> error option) \<Rightarrow> 'w YelpFusion \<Rightarrow> Context option \<Rightarrow> string \<Rightarrow> 'w
      \<Rightarrow> (error + Response) \<times> 'w" where
  "SearchBusinessesByPhoneResponse parse yf c phoneNumber w =
     (if TrimSpace phoneNumber = '''' then (Inl errPhoneRequired, w)
      else
        let urlStr = baseURL @ phoneSearch @ ''?phone='' @ QueryEscape phoneNumber
        in case getRequest parse yf c ''GET'' urlStr of
             Inl e \<Rightarrow> (Inl e, w)
           | Inr req \<Rightarrow> client yf req w)"

definition SearchBusinessReviewsWithLocaleResponse ::
    "(string \<Rightarrow> error option) \<Rightarrow> 'w YelpFusion \<Rightarrow> Context option \<Rightarrow> string \<Rightarrow> string \<Rightarrow> 'w
      \<Rightarrow> (error + Response) \<times> 'w" where
  "SearchBusinessReviewsWithLocaleResponse parse yf c busID locale w =
     (let urlStr = baseURL @ busDetails @ ''/'' @ busID @ reviewSearch;
          urlStr = (if TrimSpace locale \<noteq> '''' then urlStr @ ''?locale='' @ QueryEscape locale
                    else urlStr)
      in case getRequest parse yf c ''GET'' urlStr of
           Inl e \<Rightarrow> (Inl e, w)
         | Inr req \<Rightarrow> client yf req w)"

text \<open>
  The functions that decode the body. \<^verbatim>\<open>json.NewDecoder(resp.Body).Decode(&b)\<close> on a
  \<^verbatim>\<open>*BusinessSearchData\<close> or a \<^verbatim>\<open>*DetailedBusinessInfo\<close> is the parameter \<open>dec\<close>:
  no statement below depends on the fields of these two structures. Closing the body
  (\<^verbatim>\<open>defer resp.Body.Close()\<close>) changes no result and is left out.
\<close>

definition SearchBusinessWithContext ::
    "(string \<Rightarrow> error option) \<Rightarrow> (json option \<Rightarrow> error + 'a) \<Rightarrow> 'w YelpFusion \<Rightarrow> Context option
      \<Rightarrow> BusinessSearchParams \<Rightarrow> 'w \<Rightarrow> (error + 'a) \<times> 'w" where
  "SearchBusinessWithContext parse dec yf c bus w =
     (case SearchBusinessResponse parse yf c bus w of
        (Inl err, w') \<Rightarrow> (Inl err, w')
      | (Inr resp, w') \<Rightarrow>
          if StatusCode resp \<noteq> 200 then (Inl (errorString (Status resp)), w')
          else (case dec (Body resp) of
                  Inl err \<Rightarrow> (Inl err, w')
                | Inr b \<Rightarrow> (Inr b, w')))"

definition SearchBusiness ::
    "(string \<Rightarrow> error option) \<Rightarrow> (json option \<Rightarrow> error + 'a) \<Rightarrow> 'w YelpFusion
      \<Rightarrow> BusinessSearchParams \<Rightarrow> 'w \<Rightarrow> (error + 'a) \<times> 'w" where
  "SearchBusiness parse dec yf bus w = SearchBusinessWithContext parse dec yf None bus w"

definition SearchBusinessDetailsWithLocale ::
    "(string \<Rightarrow> error option) \<Rightarrow> (json option \<Rightarrow> error + 'a) \<Rightarrow> 'w YelpFusion \<Rightarrow> Context option
      \<Rightarrow> string \<Rightarrow> string \<Rightarrow> 'w \<Rightarrow> (error + 'a) \<times> 'w" where
  "SearchBusinessDetailsWithLocale parse dec yf c busID locale w =
     (case SearchBusinessDetailsWithLocaleResponse parse yf c busID locale w of
        (Inl err, w') \<Rightarrow> (Inl err, w')
      | (Inr resp, w') \<Rightarrow>
          if StatusCode resp \<noteq> 200 then (Inl (errorString (Status resp)), w')
          else (case dec (Body resp) of
                  Inl err \<Rightarrow> (Inl err, w')
                | Inr b \<Rightarrow> (Inr b, w')))"

definition SearchBusinessDetails ::
    "(string \<Rightarrow> error option) \<Rightarrow> (json option \<Rightarrow> error + 'a) \<Rightarrow> 'w YelpFusion
      \<Rightarrow> string \<Rightarrow> 'w \<Rightarrow> (error + 'a) \<times> 'w" where
  "SearchBusinessDetails parse dec yf busID w =
     SearchBusinessDetailsWithLocale parse dec yf None busID '''' w"

definition SearchBusinessesByPhoneWithContext ::
    "(string \<Rightarrow> error option) \<Rightarrow> (json option \<Rightarrow> error + 'a) \<Rightarrow> 'w YelpFusion \<Rightarrow> Context option
      \<Rightarrow> string \<Rightarrow> 'w \<Rightarrow> (error + 'a) \<times> 'w" where
  "SearchBusinessesByPhoneWithContext parse dec yf c phoneNumber w =
     (case SearchBusinessesByPhoneResponse parse yf c phoneNumber w of
        (Inl err, w') \<Rightarrow> (Inl err, w')
      | (Inr resp, w') \<Rightarrow>
          if StatusCode resp \<noteq> 200 then (Inl (errorString (Status resp)), w')
          else (case dec (Body resp) of
                  Inl err \<Rightarrow> (Inl err, w')
                | Inr b \<Rightarrow> (Inr b, w')))"

definition SearchBusinessesByPhone ::
    "(string \<Rightarrow> error option) \<Rightarrow> (json option \<Rightarrow> error + 'a) \<Rightarrow> 'w YelpFusion
      \<Rightarrow> string \<Rightarrow> 'w \<Rightarrow> (error + 'a) \<times> 'w" where
  "SearchBusinessesByPhone parse dec yf phoneNumber w =
     SearchBusinessesByPhoneWithContext parse dec yf None phoneNumber w"


subsection \<open>Reviews (src/reviews.go, and src/yelp.go, lines 291 to 339)\<close>

record ReviewError =
  Code :: string
  Description :: string
  NewBusinessID :: string

text \<open>\<open>'r\<close> is the type of a \<^verbatim>\<open>*ReviewInfo\<close>.\<close>

record 'r ReviewsData =
  Total :: int
  PossibleLanguages :: "string list"
  Reviews :: "'r list"
  Error :: "ReviewError option"

definition zeroReviewError :: ReviewError where
  "zeroReviewError = \<lparr>Code = '''', Description = '''', NewBusinessID = ''''\<rparr>"

definition zeroReviewsData :: "'r ReviewsData" where
  "zeroReviewsData = \<lparr>Total = 0, PossibleLanguages = [], Reviews = [], Error = None\<rparr>"

text \<open>
  \<^verbatim>\<open>encoding/json\<close> stores the member of an object in the field of the structure whose name
  (the \<^verbatim>\<open>json\<close> tag when there is one) is the key, letter case aside; a member with no such
  field is skipped. Names are compared after folding: an ASCII letter to its upper case, the
  long s (U+017F) to \<^verbatim>\<open>S\<close> and the Kelvin sign (U+212A) to \<^verbatim>\<open>K\<close>. No two fields
  of the structures below have the same folded name.
\<close>

definition toUpper :: "char \<Rightarrow> char" where
  "toUpper c =
     (if 97 \<le> (of_char c :: nat) \<and> (of_char c :: nat) \<le> 122 then char_of (of_char c - 32 :: nat)
      else c)"

fun foldName :: "string \<Rightarrow> string" where
  "foldName (a # b # c # s) =
     (if [a, b, c] = [CHR 0xE2, CHR 0x84, CHR 0xAA] then CHR ''K'' # foldName s
      else if [a, b] = [CHR 0xC5, CHR 0xBF] then CHR ''S'' # foldName (c # s)
      else toUpper a # foldName (b # c # s))"
| "foldName [a, b] =
     (if [a, b] = [CHR 0xC5, CHR 0xBF] then ''S'' else [toUpper a, toUpper b])"
| "foldName [a] = [toUpper a]"
| "foldName [] = []"

declare foldName.simps [simp del]

definition fieldMatch :: "string \<Rightarrow> string \<Rightarrow> bool" where
  "fieldMatch name key = (foldName key = foldName name)"

text \<open>
  A string field takes a JSON string, an \<^verbatim>\<open>int\<close> field an integer; \<^verbatim>\<open>null\<close> leaves the
  field as it is; any other value is an error, with which \<^verbatim>\<open>Decode\<close> returns.
\<close>

fun storeString :: "json \<Rightarrow> string \<Rightarrow> error + string" where
  "storeString (JString s) old = Inr s"
| "storeString JNull old = Inr old"
| "storeString _ old = Inl (jsonError ''json: cannot unmarshal into Go value of type string'')"

fun storeInt :: "json \<Rightarrow> int \<Rightarrow> error + int" where
  "storeInt (JNumber (Some i)) old = Inr i"
| "storeInt JNull old = Inr old"
| "storeInt _ old = Inl (jsonError ''json: cannot unmarshal into Go value of type int'')"

text \<open>The members of an object are stored one after the other, in the order of the text.\<close>

fun decodeReviewErrorFields :: "(string \<times> json) list \<Rightarrow> ReviewError \<Rightarrow> error + ReviewError" where
  "decodeReviewErrorFields [] e = Inr e"
| "decodeReviewErrorFields ((k, v) # ms) e =
     (if fieldMatch ''Code'' k then
        (case storeString v (Code e) of
           Inl err \<Rightarrow> Inl err
         | Inr s \<Rightarrow> decodeReviewErrorFields ms (e\<lparr>Code := s\<rparr>))
      else if fieldMatch ''Description'' k then
        (case storeString v (Description e) of
           Inl err \<Rightarrow> Inl err
         | Inr s \<Rightarrow> decodeReviewErrorFields ms (e\<lparr>Description := s\<rparr>))
      else if fieldMatch ''new_business_id'' k then
        (case storeString v (NewBusinessID e) of
           Inl err \<Rightarrow> Inl err
         | Inr s \<Rightarrow> decodeReviewErrorFields ms (e\<lparr>NewBusinessID := s\<rparr>))
      else decodeReviewErrorFields ms e)"

text \<open>
  The field \<^verbatim>\<open>Error *ReviewError\<close>: \<^verbatim>\<open>null\<close> makes the pointer \<^verbatim>\<open>nil\<close>; an object is
  stored in the structure the pointer has, a new one when the pointer is \<^verbatim>\<open>nil\<close>.
\<close>

fun storeReviewError :: "json \<Rightarrow> ReviewError option \<Rightarrow> error + ReviewError option" where
  "storeReviewError JNull old = Inr None"
| "storeReviewError (JObject ms) old =
     (case decodeReviewErrorFields ms (case old of None \<Rightarrow> zeroReviewError | Some e \<Rightarrow> e) of
        Inl err \<Rightarrow> Inl err
      | Inr e \<Rightarrow> Inr (Some e))"
| "storeReviewError _ old =
     Inl (jsonError ''json: cannot unmarshal into Go value of type yfusion.ReviewError'')"

text \<open>
  The two slices, \<^verbatim>\<open>[]string\<close> and \<^verbatim>\<open>[]*ReviewInfo\<close>, are stored by the decoder of the
  library, a parameter here: from the value and the slice the field has, the new slice or an
  error.
\<close>

record 'r sliceDecoders =
  storeStrings :: "json \<Rightarrow> string list \<Rightarrow> error + string list"
  storeReviews :: "json \<Rightarrow> 'r list \<Rightarrow> error + 'r list"

fun decodeReviewsDataFields ::
    "'r sliceDecoders \<Rightarrow> (string \<times> json) list \<Rightarrow> 'r ReviewsData \<Rightarrow> error + 'r ReviewsData" where
  "decodeReviewsDataFields sd [] rd = Inr rd"
| "decodeReviewsDataFields sd ((k, v) # ms) rd =
     (if fieldMatch ''Total'' k then
        (case storeInt v (Total rd) of
           Inl err \<Rightarrow> Inl err
         | Inr i \<Rightarrow> decodeReviewsDataFields sd ms (rd\<lparr>Total := i\<rparr>))
      else if fieldMatch ''possible_languages'' k then
        (case storeStrings sd v (PossibleLanguages rd) of
           Inl err \<Rightarrow> Inl err
         | Inr ls \<Rightarrow> decodeReviewsDataFields sd ms (rd\<lparr>PossibleLanguages := ls\<rparr>))
      else if fieldMatch ''Reviews'' k then
        (case storeReviews sd v (Reviews rd) of
           Inl err \<Rightarrow> Inl err
         | Inr rs \<Rightarrow> decodeReviewsDataFields sd ms (rd\<lparr>Reviews := rs\<rparr>))
      else if fieldMatch ''Error'' k then
        (case storeReviewError v (Error rd) of
           Inl err \<Rightarrow> Inl err
         | Inr e \<Rightarrow> decodeReviewsDataFields sd ms (rd\<lparr>Error := e\<rparr>))
      else decodeReviewsDataFields sd ms rd)"

text \<open>
  \<^verbatim>\<open>var rd *ReviewsData; json.NewDecoder(resp.Body).Decode(&rd)\<close>: \<^verbatim>\<open>null\<close> leaves the
  pointer \<^verbatim>\<open>nil\<close> (\<^term>\<open>None\<close>), an object is stored in a new structure.
\<close>

fun decodeReviewsData :: "'r sliceDecoders \<Rightarrow> json option \<Rightarrow> error + 'r ReviewsData option" where
  "decodeReviewsData sd None = Inl (jsonError ''invalid character'')"
| "decodeReviewsData sd (Some JNull) = Inr None"
| "decodeReviewsData sd (Some (JObject ms)) =
     (case decodeReviewsDataFields sd ms zeroReviewsData of
        Inl err \<Rightarrow> Inl err
      | Inr rd \<Rightarrow> Inr (Some rd))"
| "decodeReviewsData sd (Some _) =
     Inl (jsonError ''json: cannot unmarshal into Go value of type yfusion.ReviewsData'')"

definition SearchBusinessReviewsWithLocale ::
    "(string \<Rightarrow> error option) \<Rightarrow> 'r sliceDecoders \<Rightarrow> 'w YelpFusion \<Rightarrow> Context option
      \<Rightarrow> string \<Rightarrow> string \<Rightarrow> 'w \<Rightarrow> (error + 'r ReviewsData option) \<times> 'w" where
  "SearchBusinessReviewsWithLocale parse sd yf c busID locale w =
     (case SearchBusinessReviewsWithLocaleResponse parse yf c busID locale w of
        (Inl err, w') \<Rightarrow> (Inl err, w')
      | (Inr resp, w') \<Rightarrow>
          if StatusCode resp \<noteq> 200 \<and> StatusCode resp \<noteq> 301
          then (Inl (errorString (Status resp)), w')
          else (case decodeReviewsData sd (Body resp) of
                  Inl err \<Rightarrow> (Inl err, w')
                | Inr rd \<Rightarrow> (Inr rd, w')))"

definition SearchBusinessReviews ::
    "(string \<Rightarrow> error option) \<Rightarrow> 'r sliceDecoders \<Rightarrow> 'w YelpFusion
      \<Rightarrow> string \<Rightarrow> 'w \<Rightarrow> (error + 'r ReviewsData option) \<times> 'w" where
  "SearchBusinessReviews parse sd yf busID w =
     SearchBusinessReviewsWithLocale parse sd yf None busID '''' w"

section \<open>Properties of the parameter builder\<close>

subsection \<open>Evaluation and the bytes of a rendered value\<close>

lemma fmt_nat_numeral:
  "fmt_nat (numeral k) =
     (if (numeral k :: nat) < 10 then [''0123456789'' ! numeral k]
      else fmt_nat (numeral k div 10) @ [''0123456789'' ! (numeral k mod 10)])"
  "fmt_nat 0 = ''0''"
  "fmt_nat 1 = ''1''"
  by (subst fmt_nat.simps, simp)+

lemmas params_defs =
  Params_def getLocOrLatLong_def getOpenAtOrNow_def writeField_def emptyParams_def
  SetTerm_def SetLocation_def SetLatitude_def SetLongitude_def SetOpenNow_def SetOpenAt_def

lemmas escape_defs = QueryEscape_def escapeByte_def shouldEscape_def upperhex_def

lemmas fmt_defs = fmt_d_def fmt_v_bool_def micro_units_def round_half_even_def pad6_def
  fmt_nat_numeral

lemma params_all_nil:
  "Location bs = None \<Longrightarrow> Latitude bs = None \<Longrightarrow> Longitude bs = None
    \<Longrightarrow> Params bs = ('''', Some errMissingLocation)"
  by (simp add: Params_def getLocOrLatLong_def)

text \<open>An escaped value has letters, digits and \<^verbatim>\<open>-_.~%+\<close> only; a number has no other sign than its own.\<close>

lemma hex_digit: "n < 16 \<Longrightarrow> upperhex ! n \<in> set upperhex"
  by (rule nth_mem) (simp add: upperhex_def)

lemma escapeByte_plain:
  assumes "shouldEscape x" and "x \<notin> set upperhex" and "x \<noteq> CHR ''%''" and "x \<noteq> CHR ''+''"
  shows "x \<notin> set (escapeByte c)"
proof -
  have "(of_char c :: nat) div 16 < 16"
    using nat_of_char_less_256 [of c] by (simp add: less_mult_imp_div_less)
  then have hi: "upperhex ! (of_char c div 16) \<in> set upperhex"
    by (rule hex_digit)
  have lo: "upperhex ! (of_char c mod 16) \<in> set upperhex"
    by (rule hex_digit) simp
  from assms hi lo show ?thesis
    by (auto simp: escapeByte_def)
qed

lemma QueryEscape_plain:
  assumes "shouldEscape x" and "x \<notin> set upperhex" and "x \<noteq> CHR ''%''" and "x \<noteq> CHR ''+''"
  shows "x \<notin> set (QueryEscape s)"
  using escapeByte_plain [OF assms] by (auto simp: QueryEscape_def)

lemma QueryEscape_no_eq: "CHR ''='' \<notin> set (QueryEscape s)"
  by (rule QueryEscape_plain) (simp_all add: shouldEscape_def upperhex_def)

lemma fmt_nat_digits: "set (fmt_nat n) \<subseteq> set ''0123456789''"
proof (induction n rule: fmt_nat.induct)
  case (1 n)
  define D where "D = ''0123456789''"
  have len: "length D = 10"
    by (simp add: D_def)
  have hi: "D ! (n mod 10) \<in> set D"
    by (rule nth_mem) (simp add: len)
  have lo: "n < 10 \<Longrightarrow> D ! n \<in> set D"
    by (rule nth_mem) (simp add: len)
  have step: "fmt_nat n = (if n < 10 then [D ! n] else fmt_nat (n div 10) @ [D ! (n mod 10)])"
    by (subst fmt_nat.simps) (simp add: D_def)
  from 1 have "\<not> n < 10 \<Longrightarrow> set (fmt_nat (n div 10)) \<subseteq> set D"
    by (simp add: D_def)
  with hi lo have "set (fmt_nat n) \<subseteq> set D"
    by (subst step) auto
  then show ?case
    by (simp only: D_def)
qed

lemma fmt_d_no_eq: "CHR ''='' \<notin> set (fmt_d i)"
  using fmt_nat_digits by (auto simp: fmt_d_def)

subsection \<open>Where a key can occur in a query string\<close>

text \<open>
  A pattern without the separator that occurs in \<open>a & b\<close> occurs in \<open>a\<close> or in \<open>b\<close>; a
  pattern \<open>q=\<close> that occurs in a clause \<open>key=value\<close> ends the key.
\<close>

lemma prefix_sep: "c \<notin> set p \<Longrightarrow> prefix p (u @ c # b) \<longleftrightarrow> prefix p u"
  by (auto simp: prefix_append prefix_Cons)

lemma sublist_sep: "c \<notin> set p \<Longrightarrow> sublist p (a @ c # b) \<longleftrightarrow> sublist p a \<or> sublist p b"
proof (induction a)
  case Nil
  then show ?case by (cases p) (auto simp: sublist_Cons_right prefix_Cons)
next
  case (Cons x a)
  have "prefix p (x # a @ c # b) \<longleftrightarrow> prefix p (x # a)"
    using prefix_sep [OF Cons.prems, of "x # a" b] by simp
  with Cons show ?case
    by (auto simp: sublist_Cons_right)
qed

lemma sublist_clause:
  assumes "sublist (q @ [e]) (k @ e # v)" and "e \<notin> set k" and "e \<notin> set v"
  shows "suffix q k"
proof -
  from assms(1) obtain pre post where eq: "k @ e # v = (pre @ q) @ e # post"
    by (auto simp: sublist_def)
  from eq have "\<exists>us. k = (pre @ q) @ us \<and> us @ e # v = e # post
                   \<or> k @ us = pre @ q \<and> e # v = us @ e # post"
    by (simp only: append_eq_append_conv2)
  then consider us where "k = (pre @ q) @ us" "us @ e # v = e # post"
    | us where "k @ us = pre @ q" "e # v = us @ e # post"
    by blast
  then show ?thesis
  proof cases
    case 1
    with assms(2) have "us = []" by (cases us) auto
    with 1 show ?thesis by (simp add: suffix_def)
  next
    case 2
    with assms(3) have "us = []" by (cases us) auto
    with 2 show ?thesis by (auto simp: suffix_def)
  qed
qed

lemma nokey_writeField:
  assumes "\<not> sublist (q @ ''='') sb"
    and "\<And>v. CHR ''='' \<notin> set (render v)"
    and "CHR ''='' \<notin> set key" and "\<not> suffix q key" and "CHR ''&'' \<notin> set q"
  shows "\<not> sublist (q @ ''='') (writeField key render p sb)"
proof (cases p)
  case None
  with assms(1) show ?thesis by (simp add: writeField_def)
next
  case (Some v)
  have cl: "\<not> sublist (q @ ''='') (key @ CHR ''='' # render v)"
    using sublist_clause [of q "CHR ''=''" key "render v"] assms(2,3,4) by auto
  have amp: "CHR ''&'' \<notin> set (q @ ''='')"
    using assms(5) by simp
  have "\<not> sublist (q @ ''='') (sb @ CHR ''&'' # (key @ CHR ''='' # render v))"
    using sublist_sep [OF amp, of sb "key @ CHR ''='' # render v"] cl assms(1) by blast
  with Some show ?thesis by (simp add: writeField_def)
qed

lemma nokey_open:
  assumes "getOpenAtOrNow bs = (opn, None)" and "\<not> sublist (q @ ''='') sb"
    and "\<not> suffix q ''open_now''" and "\<not> suffix q ''open_at''" and "CHR ''&'' \<notin> set q"
  shows "\<not> sublist (q @ ''='') (if opn \<noteq> '''' then sb @ ''&'' @ opn else sb)"
proof (cases "opn = ''''")
  case True
  with assms(2) show ?thesis by simp
next
  case False
  have amp: "CHR ''&'' \<notin> set (q @ ''='')"
    using assms(5) by simp
  from assms(1) False consider b where "opn = ''open_now'' @ CHR ''='' # fmt_v_bool b"
    | i where "opn = ''open_at'' @ CHR ''='' # fmt_d i"
    by (auto simp: getOpenAtOrNow_def split: if_splits option.splits)
  then have "\<not> sublist (q @ ''='') opn"
  proof cases
    case 1
    show ?thesis
      using sublist_clause [of q "CHR ''=''" "''open_now''" "fmt_v_bool b"] assms(3)
      unfolding 1 by (auto simp: fmt_v_bool_def)
  next
    case 2
    show ?thesis
      using sublist_clause [of q "CHR ''=''" "''open_at''" "fmt_d i"] assms(4) fmt_d_no_eq [of i]
      unfolding 2 by auto
  qed
  then have "\<not> sublist (q @ ''='') (sb @ CHR ''&'' # opn)"
    using sublist_sep [OF amp, of sb opn] assms(2) by blast
  with False show ?thesis by simp
qed

lemma prefix_writeField: "prefix a sb \<Longrightarrow> prefix a (writeField key render p sb)"
  by (cases p) (auto simp: writeField_def prefix_def)

lemma prefix_open: "prefix a sb \<Longrightarrow> prefix a (if opn \<noteq> '''' then sb @ ''&'' @ opn else sb)"
  by (auto simp: prefix_def)

text \<open>
  When neither helper fails, \<^verbatim>\<open>Params\<close> returns a string that starts with the location
  clauses, and a key occurs in it only where a clause has it.
\<close>

lemma nokey_Params:
  assumes loc: "getLocOrLatLong bs = (loc, None)" and opn: "getOpenAtOrNow bs = (opn, None)"
    and start: "\<not> sublist (q @ ''='') loc"
    and amp: "CHR ''&'' \<notin> set q"
    and keys: "\<not> suffix q ''term''" "\<not> suffix q ''radius''" "\<not> suffix q ''categories''"
      "\<not> suffix q ''locale''" "\<not> suffix q ''limit''" "\<not> suffix q ''offset''"
      "\<not> suffix q ''sort_by''" "\<not> suffix q ''price''" "\<not> suffix q ''open_now''"
      "\<not> suffix q ''open_at''" "\<not> suffix q ''attributes''"
  shows "\<not> sublist (q @ ''='') (fst (Params bs))"
  apply (simp only: Params_def Let_def loc opn prod.case fst_conv simp_thms if_False)
  apply (intro nokey_writeField nokey_open [OF opn] QueryEscape_no_eq fmt_d_no_eq start amp keys)
  apply simp_all
  done

lemma prefix_Params:
  assumes loc: "getLocOrLatLong bs = (loc, None)" and opn: "getOpenAtOrNow bs = (opn, None)"
  shows "snd (Params bs) = None \<and> prefix loc (fst (Params bs))"
  apply (simp only: Params_def Let_def loc opn prod.case fst_conv snd_conv simp_thms if_False)
  apply (intro prefix_writeField prefix_open prefix_order.refl)
  done

lemma open_ok:
  assumes "\<not> (OpenNow bs \<noteq> None \<and> OpenAt bs \<noteq> None)"
  shows "\<exists>opn. getOpenAtOrNow bs = (opn, None)"
  using assms by (cases "OpenNow bs"; cases "OpenAt bs") (simp_all add: getOpenAtOrNow_def)

subsection \<open>The location rule\<close>

text \<open>
  Claim C1. A record in which neither the location nor the pair of a latitude and a longitude
  is present should make \<^verbatim>\<open>Params\<close> fail with the missing-location error.
  \<^verbatim>\<open>getLocOrLatLong\<close> fails only when the three fields are all \<^verbatim>\<open>nil\<close>
  (\<open>params_all_nil\<close>). With a latitude and nothing else, the location is missing and so is
  the pair, and \<^verbatim>\<open>Params\<close> returns no error: it returns the empty query string.
\<close>

theorem params_latitude_only_no_error:
  "Params (SetLatitude (Finite False 30 0) emptyParams) = ('''', None)"
  by (simp add: params_defs)

subsection \<open>The rule on open-now and open-at\<close>

text \<open>
  Claim C2, as stated, fails: a record with the open-now flag and the open-at time, and no
  location, latitude or longitude, gets the missing-location error, which
  \<^verbatim>\<open>Params\<close> checks first.
\<close>

theorem params_open_conflict_counterexample:
  "OpenNow (SetOpenAt 1 (SetOpenNow True emptyParams)) \<noteq> None
   \<and> OpenAt (SetOpenAt 1 (SetOpenNow True emptyParams)) \<noteq> None
   \<and> Params (SetOpenAt 1 (SetOpenNow True emptyParams)) = ('''', Some errMissingLocation)
   \<and> errMissingLocation \<noteq> errOpenBoth"
  by (simp add: params_defs errOpenBoth_def errMissingLocation_def)

text \<open>
  Claim C2, amended. For every record with the open-now flag and the open-at time set, and
  with a location, a latitude or a longitude, \<^verbatim>\<open>Params\<close> fails with the
  mutual-exclusivity error and returns the empty string.
\<close>

theorem params_open_conflict:
  assumes "OpenNow bs \<noteq> None" and "OpenAt bs \<noteq> None"
    and "\<not> (Location bs = None \<and> Latitude bs = None \<and> Longitude bs = None)"
  shows "Params bs = ('''', Some errOpenBoth)"
proof -
  from assms(3) obtain loc where "getLocOrLatLong bs = (loc, None)"
    by (simp add: getLocOrLatLong_def Let_def)
  moreover from assms(1,2) have "getOpenAtOrNow bs = ('''', Some errOpenBoth)"
    by (simp add: getOpenAtOrNow_def)
  ultimately show ?thesis
    by (simp add: Params_def Let_def)
qed

theorem params_open_conflict_witness:
  "OpenNow (SetOpenAt 1 (SetOpenNow True (SetLocation ''Austin, TX'' emptyParams))) \<noteq> None
   \<and> OpenAt (SetOpenAt 1 (SetOpenNow True (SetLocation ''Austin, TX'' emptyParams))) \<noteq> None
   \<and> Location (SetOpenAt 1 (SetOpenNow True (SetLocation ''Austin, TX'' emptyParams))) \<noteq> None
   \<and> Params (SetOpenAt 1 (SetOpenNow True (SetLocation ''Austin, TX'' emptyParams)))
       = ('''', Some errOpenBoth)"
  using params_open_conflict
    [of "SetOpenAt 1 (SetOpenNow True (SetLocation ''Austin, TX'' emptyParams))"]
  by (simp add: SetOpenAt_def SetOpenNow_def SetLocation_def emptyParams_def)

subsection \<open>Rendered query strings\<close>

text \<open>
  Claim C7. The record with only the location \<^verbatim>\<open>Austin, TX\<close> and the term \<^verbatim>\<open>food\<close>
  renders as \<^verbatim>\<open>location=Austin%2C+TX&term=food\<close>: the values escaped, the clauses joined with
  \<^verbatim>\<open>&\<close>, no question mark in front. The second record has every field a query can have,
  and shows the order of the clauses: location, latitude and longitude, term, radius,
  categories, locale, limit, offset, sort_by, price, the open clause, attributes.
\<close>

theorem params_austin_food:
  "Params (SetTerm ''food'' (SetLocation ''Austin, TX'' emptyParams))
     = (''location=Austin%2C+TX&term=food'', None)
   \<and> Params \<lparr>Term = Some ''food'', Location = Some ''Austin, TX'',
        Latitude = Some (Finite False 30 0), Longitude = Some (Finite True 97 0),
        Radius = Some 4000, Categories = Some ''bars,french'', Locale = Some ''en_US'',
        Limit = Some 20, Offset = Some 0, SortBy = Some ''rating'', Price = Some ''1, 2'',
        OpenNow = Some True, OpenAt = None, Attributes = Some ''hot_and_new''\<rparr>
     = (''location=Austin%2C+TX&latitude=30.000000&longitude=-97.000000&term=food&radius=4000''
        @ ''&categories=bars%2Cfrench&locale=en_US&limit=20&offset=0&sort_by=rating''
        @ ''&price=1%2C+2&open_now=true&attributes=hot_and_new'', None)"
  by (simp add: params_defs escape_defs fmt_defs)

text \<open>
  Claim C8. The record with the latitude 30.0, the longitude -97.0 and nothing else renders as
  \<^verbatim>\<open>latitude=30.000000&longitude=-97.000000\<close>: six digits after the point, and no
  \<^verbatim>\<open>location=\<close> clause.
\<close>

theorem params_lat_long_only:
  "Params (SetLongitude (Finite True 97 0) (SetLatitude (Finite False 30 0) emptyParams))
     = (''latitude=30.000000&longitude=-97.000000'', None)
   \<and> sublist ''latitude=30.000000&longitude=-97.000000''
        (fst (Params (SetLongitude (Finite True 97 0) (SetLatitude (Finite False 30 0) emptyParams))))
   \<and> \<not> sublist ''location=''
        (fst (Params (SetLongitude (Finite True 97 0) (SetLatitude (Finite False 30 0) emptyParams))))"
proof -
  have "Params (SetLongitude (Finite True 97 0) (SetLatitude (Finite False 30 0) emptyParams))
     = (''latitude=30.000000&longitude=-97.000000'', None)"
    by (simp add: params_defs fmt_defs)
  then show ?thesis
    by (simp add: sublist_Cons_right prefix_Cons)
qed

subsection \<open>A location together with coordinates\<close>

text \<open>
  Claim C9, as stated, fails: a record with the location, the latitude and the longitude, and
  with both the open-now flag and the open-at time, gets the mutual-exclusivity error and
  the empty string, which has neither clause.
\<close>

theorem params_location_and_coordinates_counterexample:
  "Location (SetOpenAt 1 (SetOpenNow True (SetLongitude (Finite True 97 0)
      (SetLatitude (Finite False 30 0) (SetLocation ''Austin, TX'' emptyParams))))) \<noteq> None
   \<and> Latitude (SetOpenAt 1 (SetOpenNow True (SetLongitude (Finite True 97 0)
      (SetLatitude (Finite False 30 0) (SetLocation ''Austin, TX'' emptyParams))))) \<noteq> None
   \<and> Longitude (SetOpenAt 1 (SetOpenNow True (SetLongitude (Finite True 97 0)
      (SetLatitude (Finite False 30 0) (SetLocation ''Austin, TX'' emptyParams))))) \<noteq> None
   \<and> Params (SetOpenAt 1 (SetOpenNow True (SetLongitude (Finite True 97 0)
      (SetLatitude (Finite False 30 0) (SetLocation ''Austin, TX'' emptyParams)))))
       = ('''', Some errOpenBoth)"
  by (simp add: params_defs escape_defs fmt_defs)

text \<open>
  Claim C9, amended. For every record with the location, the latitude and the longitude
  present, and not both the open-now flag and the open-at time, \<^verbatim>\<open>Params\<close> succeeds and
  its query string starts with the location clause, then \<^verbatim>\<open>&\<close>, then the latitude and
  longitude clauses: neither form replaces the other.
\<close>

theorem params_location_and_coordinates:
  assumes "Location bs = Some l" and "Latitude bs = Some la" and "Longitude bs = Some lo"
    and "\<not> (OpenNow bs \<noteq> None \<and> OpenAt bs \<noteq> None)"
  shows "snd (Params bs) = None
    \<and> prefix (''location='' @ QueryEscape l @ ''&'' @ ''latitude='' @ fmt_f la
               @ ''&longitude='' @ fmt_f lo)
        (fst (Params bs))"
proof -
  from assms(1-3) have "getLocOrLatLong bs =
      (''location='' @ QueryEscape l @ ''&'' @ ''latitude='' @ fmt_f la
         @ ''&longitude='' @ fmt_f lo, None)"
    by (simp add: getLocOrLatLong_def)
  moreover from assms(4) obtain opn where "getOpenAtOrNow bs = (opn, None)"
    using open_ok by blast
  ultimately show ?thesis
    by (rule prefix_Params)
qed

theorem params_location_and_coordinates_witness:
  "Location (SetLongitude (Finite True 97 0) (SetLatitude (Finite False 30 0)
      (SetLocation ''Austin, TX'' emptyParams))) = Some ''Austin, TX''
   \<and> Latitude (SetLongitude (Finite True 97 0) (SetLatitude (Finite False 30 0)
      (SetLocation ''Austin, TX'' emptyParams))) = Some (Finite False 30 0)
   \<and> Longitude (SetLongitude (Finite True 97 0) (SetLatitude (Finite False 30 0)
      (SetLocation ''Austin, TX'' emptyParams))) = Some (Finite True 97 0)
   \<and> OpenNow (SetLongitude (Finite True 97 0) (SetLatitude (Finite False 30 0)
      (SetLocation ''Austin, TX'' emptyParams))) = None
   \<and> snd (Params (SetLongitude (Finite True 97 0) (SetLatitude (Finite False 30 0)
      (SetLocation ''Austin, TX'' emptyParams)))) = None
   \<and> prefix ''location=Austin%2C+TX&latitude=30.000000&longitude=-97.000000''
       (fst (Params (SetLongitude (Finite True 97 0) (SetLatitude (Finite False 30 0)
          (SetLocation ''Austin, TX'' emptyParams)))))"
  using params_location_and_coordinates
    [of "SetLongitude (Finite True 97 0) (SetLatitude (Finite False 30 0)
          (SetLocation ''Austin, TX'' emptyParams))"
        "''Austin, TX''" "Finite False 30 0" "Finite True 97 0"]
  by (simp add: SetLongitude_def SetLatitude_def SetLocation_def emptyParams_def
      escape_defs fmt_defs)

subsection \<open>A location with half a pair of coordinates\<close>

text \<open>
  Claim C10, as stated, fails: a record with the location and the latitude only, and with
  both the open-now flag and the open-at time, is an error.
\<close>

theorem params_half_pair_dropped_counterexample:
  "Location (SetOpenAt 1 (SetOpenNow True (SetLatitude (Finite False 30 0)
      (SetLocation ''Austin, TX'' emptyParams)))) \<noteq> None
   \<and> Latitude (SetOpenAt 1 (SetOpenNow True (SetLatitude (Finite False 30 0)
      (SetLocation ''Austin, TX'' emptyParams)))) \<noteq> None
   \<and> Longitude (SetOpenAt 1 (SetOpenNow True (SetLatitude (Finite False 30 0)
      (SetLocation ''Austin, TX'' emptyParams)))) = None
   \<and> Params (SetOpenAt 1 (SetOpenNow True (SetLatitude (Finite False 30 0)
      (SetLocation ''Austin, TX'' emptyParams)))) = ('''', Some errOpenBoth)"
  by (simp add: params_defs escape_defs)

text \<open>
  Claim C10, amended. For every record with the location present, exactly one of the latitude
  and the longitude present, and not both the open-now flag and the open-at time,
  \<^verbatim>\<open>Params\<close> succeeds, its query string starts with the location clause, and
  \<^verbatim>\<open>latitude=\<close> and \<^verbatim>\<open>longitude=\<close> occur nowhere in it: the half of a pair is dropped.
\<close>

theorem params_half_pair_dropped:
  assumes "Location bs = Some l" and "(Latitude bs = None) \<noteq> (Longitude bs = None)"
    and "\<not> (OpenNow bs \<noteq> None \<and> OpenAt bs \<noteq> None)"
  shows "snd (Params bs) = None
    \<and> prefix (''location='' @ QueryEscape l) (fst (Params bs))
    \<and> \<not> sublist ''latitude='' (fst (Params bs))
    \<and> \<not> sublist ''longitude='' (fst (Params bs))"
proof -
  from assms(1,2) have loc: "getLocOrLatLong bs = (''location='' @ QueryEscape l, None)"
    by (cases "Latitude bs"; cases "Longitude bs") (simp_all add: getLocOrLatLong_def)
  from assms(3) obtain opn where opn: "getOpenAtOrNow bs = (opn, None)"
    using open_ok by blast
  have start: "\<not> sublist (q @ ''='') (''location='' @ QueryEscape l)"
    if "\<not> suffix q ''location''" for q
    using sublist_clause [of q "CHR ''=''" "''location''" "QueryEscape l"] that
      QueryEscape_no_eq [of l]
    by auto
  have "\<not> sublist (''latitude'' @ ''='') (fst (Params bs))"
    by (rule nokey_Params [OF loc opn start]) (simp_all add: suffix_def)
  moreover have "\<not> sublist (''longitude'' @ ''='') (fst (Params bs))"
    by (rule nokey_Params [OF loc opn start]) (simp_all add: suffix_def)
  ultimately show ?thesis
    using prefix_Params [OF loc opn] by simp
qed

theorem params_half_pair_dropped_witness:
  "Location (SetTerm ''food'' (SetLatitude (Finite False 30 0)
      (SetLocation ''Austin, TX'' emptyParams))) = Some ''Austin, TX''
   \<and> Latitude (SetTerm ''food'' (SetLatitude (Finite False 30 0)
      (SetLocation ''Austin, TX'' emptyParams))) \<noteq> None
   \<and> Longitude (SetTerm ''food'' (SetLatitude (Finite False 30 0)
      (SetLocation ''Austin, TX'' emptyParams))) = None
   \<and> OpenNow (SetTerm ''food'' (SetLatitude (Finite False 30 0)
      (SetLocation ''Austin, TX'' emptyParams))) = None
   \<and> Params (SetTerm ''food'' (SetLatitude (Finite False 30 0)
      (SetLocation ''Austin, TX'' emptyParams))) = (''location=Austin%2C+TX&term=food'', None)
   \<and> \<not> sublist ''latitude='' (fst (Params (SetTerm ''food'' (SetLatitude (Finite False 30 0)
      (SetLocation ''Austin, TX'' emptyParams)))))
   \<and> \<not> sublist ''longitude='' (fst (Params (SetTerm ''food'' (SetLatitude (Finite False 30 0)
      (SetLocation ''Austin, TX'' emptyParams)))))"
proof -
  have ev: "Params (SetTerm ''food'' (SetLatitude (Finite False 30 0)
      (SetLocation ''Austin, TX'' emptyParams))) = (''location=Austin%2C+TX&term=food'', None)"
    by (simp add: params_defs escape_defs)
  show ?thesis
    using params_half_pair_dropped
      [of "SetTerm ''food'' (SetLatitude (Finite False 30 0)
            (SetLocation ''Austin, TX'' emptyParams))" "''Austin, TX''"]
    by (simp add: ev) (simp add: SetTerm_def SetLatitude_def SetLocation_def emptyParams_def)
qed

section \<open>Properties of the requests and of the decoding\<close>

lemma validMethod_GET: "validMethod ''GET''"
  by (simp add: validMethod_def isTokenByte_def)

lemma getRequest_GET:
  "getRequest parse yf c ''GET'' url =
     (case parse url of
        Some err \<Rightarrow> Inl err
      | None \<Rightarrow> Inr \<lparr>Method = ''GET'', URL = url,
                      Header = [(''Authorization'', [''Bearer '' @ apiKey yf])], ctx = None\<rparr>)"
  by (simp add: getRequest_def NewRequest_def validMethod_GET Header_Set_def WithContext_def Let_def
      split: option.splits)

lemmas url_defs = baseURL_def busDetails_def busSearch_def phoneSearch_def reviewSearch_def

subsection \<open>The context of a request\<close>

text \<open>Whatever context it is given, \<^verbatim>\<open>getRequest\<close> returns a request with the background context.\<close>

lemma getRequest_no_context: "getRequest parse yf c method url = Inr req \<Longrightarrow> ctx req = None"
  by (auto simp: getRequest_def NewRequest_def Header_Set_def Let_def split: option.splits if_splits)

text \<open>
  Claim C4. An operation called with a context should hand the transport a request that
  carries it. Here the transport records the requests it is given and answers with an
  error; the search is called with the context \<open>Context 1\<close>, and the request the transport
  was given has no context.
\<close>

theorem context_not_carried:
  "SearchBusinessWithContext (\<lambda>u. None) (\<lambda>b. Inr b)
      \<lparr>client = (\<lambda>req w. (Inl (transportError ''unreachable''), w @ [req])), apiKey = ''key''\<rparr>
      (Some (Context 1)) (SetLocation ''Austin, TX'' emptyParams) []
   = (Inl (transportError ''unreachable''),
      [\<lparr>Method = ''GET'', URL = ''https://api.yelp.com/v3/businesses/search?location=Austin%2C+TX'',
        Header = [(''Authorization'', [''Bearer key''])], ctx = None\<rparr>])"
  by (simp add: SearchBusinessWithContext_def SearchBusinessResponse_def getRequest_GET url_defs
      params_defs escape_defs)

subsection \<open>The phone number of a phone search\<close>

text \<open>
  Claim C5. When the phone number is empty once its white space is trimmed, the phone search
  fails with the error \<^verbatim>\<open>phone number is required\<close> and returns the world as it was: it has
  built no request and called no transport, whatever the parser and the client are. Otherwise
  it builds the URL with the phone number escaped and, unless the parser refuses the URL,
  hands the transport a \<^verbatim>\<open>GET\<close> request for it.
\<close>

theorem phone_search_validation:
  "(TrimSpace phoneNumber = '''' \<longrightarrow>
      SearchBusinessesByPhoneResponse parse yf c phoneNumber w = (Inl errPhoneRequired, w)
      \<and> SearchBusinessesByPhoneWithContext parse dec yf c phoneNumber w = (Inl errPhoneRequired, w))
   \<and> (TrimSpace phoneNumber \<noteq> '''' \<longrightarrow>
      SearchBusinessesByPhoneResponse parse yf c phoneNumber w =
        (case parse (''https://api.yelp.com/v3/businesses/search/phone?phone=''
                      @ QueryEscape phoneNumber) of
           Some err \<Rightarrow> (Inl err, w)
         | None \<Rightarrow>
             client yf \<lparr>Method = ''GET'',
               URL = ''https://api.yelp.com/v3/businesses/search/phone?phone=''
                      @ QueryEscape phoneNumber,
               Header = [(''Authorization'', [''Bearer '' @ apiKey yf])], ctx = None\<rparr> w))"
  by (simp add: SearchBusinessesByPhoneResponse_def SearchBusinessesByPhoneWithContext_def
      getRequest_GET url_defs split: option.splits)

theorem phone_search_validation_witness:
  "TrimSpace [CHR '' '', CHR 0x09, CHR 0xC2, CHR 0xA0] = ''''
   \<and> SearchBusinessesByPhoneResponse (\<lambda>u. None)
        \<lparr>client = (\<lambda>req w. (Inl (transportError ''unreachable''), w @ [req])), apiKey = ''key''\<rparr>
        None [CHR '' '', CHR 0x09, CHR 0xC2, CHR 0xA0] [] = (Inl errPhoneRequired, [])
   \<and> TrimSpace ''+1 512'' \<noteq> ''''
   \<and> SearchBusinessesByPhoneResponse (\<lambda>u. None)
        \<lparr>client = (\<lambda>req w. (Inl (transportError ''unreachable''), w @ [req])), apiKey = ''key''\<rparr>
        None ''+1 512'' []
      = (Inl (transportError ''unreachable''),
         [\<lparr>Method = ''GET'',
           URL = ''https://api.yelp.com/v3/businesses/search/phone?phone=%2B1+512'',
           Header = [(''Authorization'', [''Bearer key''])], ctx = None\<rparr>])"
proof -
  have blank: "TrimSpace [CHR '' '', CHR 0x09, CHR 0xC2, CHR 0xA0] = ''''"
    by code_simp
  have filled: "TrimSpace ''+1 512'' \<noteq> ''''"
    by code_simp
  have esc: "QueryEscape ''+1 512'' = ''%2B1+512''"
    by (simp add: escape_defs)
  show ?thesis
    using blank filled
      phone_search_validation [of "[CHR '' '', CHR 0x09, CHR 0xC2, CHR 0xA0]" "\<lambda>u. None"
        "\<lparr>client = (\<lambda>req w. (Inl (transportError ''unreachable''), w @ [req])),
          apiKey = ''key''\<rparr>"
        None "[]" "\<lambda>b. Inr b"]
      phone_search_validation [of "''+1 512''" "\<lambda>u. None"
        "\<lparr>client = (\<lambda>req w. (Inl (transportError ''unreachable''), w @ [req])),
          apiKey = ''key''\<rparr>"
        None "[]" "\<lambda>b. Inr b"]
    by (simp add: esc)
qed

subsection \<open>A status other than 200\<close>

text \<open>
  In src/yelp.go (lines 173 to 188, 215 to 230 and 258 to 273) the search, the details and
  the phone search turn a response with another status than 200 into an error that carries
  the status text, and decode nothing.
\<close>

lemma search_non_200:
  assumes "SearchBusinessResponse parse yf c bus w = (Inr resp, w')" and "StatusCode resp \<noteq> 200"
  shows "SearchBusinessWithContext parse dec yf c bus w = (Inl (errorString (Status resp)), w')"
  using assms by (simp add: SearchBusinessWithContext_def)

lemma details_non_200:
  assumes "SearchBusinessDetailsWithLocaleResponse parse yf c busID locale w = (Inr resp, w')"
    and "StatusCode resp \<noteq> 200"
  shows "SearchBusinessDetailsWithLocale parse dec yf c busID locale w
           = (Inl (errorString (Status resp)), w')"
  using assms by (simp add: SearchBusinessDetailsWithLocale_def)

lemma phone_non_200:
  assumes "SearchBusinessesByPhoneResponse parse yf c phoneNumber w = (Inr resp, w')"
    and "StatusCode resp \<noteq> 200"
  shows "SearchBusinessesByPhoneWithContext parse dec yf c phoneNumber w
           = (Inl (errorString (Status resp)), w')"
  using assms by (simp add: SearchBusinessesByPhoneWithContext_def)


subsection \<open>The migration error of the reviews\<close>

lemma fieldMatch_error:
  "\<not> fieldMatch ''Total'' ''error''"
  "\<not> fieldMatch ''possible_languages'' ''error''"
  "\<not> fieldMatch ''Reviews'' ''error''"
  "fieldMatch ''Error'' ''error''"
  by code_simp+

lemma fieldMatch_code:
  "fieldMatch ''Code'' ''code''"
  "\<not> fieldMatch ''Code'' ''description''"
  "fieldMatch ''Description'' ''description''"
  "\<not> fieldMatch ''Code'' ''new_business_id''"
  "\<not> fieldMatch ''Description'' ''new_business_id''"
  "fieldMatch ''new_business_id'' ''new_business_id''"
  by code_simp+

text \<open>The document of a migrated business gives a record whose \<open>Error\<close> has the new identifier.\<close>

lemma decode_migration_document:
  "decodeReviewsData sd (Some (JObject [(''error'', JObject [(''code'', JString cd),
       (''description'', JString ds), (''new_business_id'', JString new)])]))
   = Inr (Some \<lparr>Total = 0, PossibleLanguages = [], Reviews = [],
        Error = Some \<lparr>Code = cd, Description = ds, NewBusinessID = new\<rparr>\<rparr>)"
  by (simp add: fieldMatch_error fieldMatch_code zeroReviewsData_def zeroReviewError_def)

text \<open>A response with the status 200 or 301 is decoded, and the status plays no part in it.\<close>

lemma reviews_accepted_status:
  assumes "SearchBusinessReviewsWithLocaleResponse parse yf c busID locale w = (Inr resp, w')"
    and "StatusCode resp = 200 \<or> StatusCode resp = 301"
  shows "SearchBusinessReviewsWithLocale parse sd yf c busID locale w
           = (case decodeReviewsData sd (Body resp) of
                Inl err \<Rightarrow> (Inl err, w')
              | Inr rd \<Rightarrow> (Inr rd, w'))"
  using assms by (auto simp: SearchBusinessReviewsWithLocale_def)

lemma reviews_301_migration:
  assumes "SearchBusinessReviewsWithLocaleResponse parse yf c busID locale w = (Inr resp, w')"
    and "StatusCode resp = 301"
    and "Body resp = Some (JObject [(''error'', JObject [(''code'', JString cd),
           (''description'', JString ds), (''new_business_id'', JString new)])])"
  shows "SearchBusinessReviewsWithLocale parse sd yf c busID locale w
           = (Inr (Some \<lparr>Total = 0, PossibleLanguages = [], Reviews = [],
                Error = Some \<lparr>Code = cd, Description = ds, NewBusinessID = new\<rparr>\<rparr>), w')"
  using reviews_accepted_status [OF assms(1), of sd] assms(2,3)
  by (simp add: decode_migration_document del: decodeReviewsData.simps)

text \<open>Without a member for the field \<open>Error\<close>, the field stays as it was: not populated.\<close>

lemma fields_keep_Error:
  assumes "\<forall>(k, v) \<in> set ms. \<not> fieldMatch ''Error'' k"
    and "decodeReviewsDataFields sd ms rd = Inr rd'"
  shows "Error rd' = Error rd"
  using assms
proof (induction ms arbitrary: rd)
  case Nil
  then show ?case by simp
next
  case (Cons m ms)
  obtain k v where m: "m = (k, v)"
    by (cases m)
  with Cons.prems(1) have nk: "\<not> fieldMatch ''Error'' k"
    and rest: "\<forall>(k, v) \<in> set ms. \<not> fieldMatch ''Error'' k"
    by auto
  from Cons.prems(2) m nk obtain rd1
    where "decodeReviewsDataFields sd ms rd1 = Inr rd'" and "Error rd1 = Error rd"
    by (auto split: if_splits sum.splits)
  with Cons.IH [OF rest] show ?case
    by simp
qed

text \<open>
  Claim C3. A response with the status 200 should never give a record with the migration
  error populated. The decoding does not look at the status: the document of a migrated
  business, sent with the status 200, populates the field as it does with the status 301
  (\<open>reviews_301_migration\<close>).
\<close>

theorem reviews_200_populates_error:
  "SearchBusinessReviewsWithLocale (\<lambda>u. None)
      \<lparr>storeStrings = (\<lambda>j old. Inr old), storeReviews = (\<lambda>j (old :: unit list). Inr old)\<rparr>
      \<lparr>client = (\<lambda>req w. (Inr \<lparr>StatusCode = 200, Status = ''200 OK'',
           Body = Some (JObject [(''error'', JObject [(''code'', JString ''BUSINESS_MIGRATED''),
             (''description'', JString ''moved''), (''new_business_id'', JString ''new-id'')])])\<rparr>,
           w @ [req])),
        apiKey = ''key''\<rparr>
      None ''old-id'' '''' []
   = (Inr (Some \<lparr>Total = 0, PossibleLanguages = [], Reviews = [],
        Error = Some \<lparr>Code = ''BUSINESS_MIGRATED'', Description = ''moved'',
          NewBusinessID = ''new-id''\<rparr>\<rparr>),
      [\<lparr>Method = ''GET'', URL = ''https://api.yelp.com/v3/businesses/old-id/reviews'',
        Header = [(''Authorization'', [''Bearer key''])], ctx = None\<rparr>])"
proof -
  have "TrimSpace '''' = ''''"
    by code_simp
  then show ?thesis
    by (simp add: SearchBusinessReviewsWithLocale_def SearchBusinessReviewsWithLocaleResponse_def
        getRequest_GET url_defs decode_migration_document del: decodeReviewsData.simps)
qed

end
